theory Spec2Isabelle
  imports Main
begin

section \<open>Python values\<close>

text \<open>
  The values \<^verbatim>\<open>json.load\<close> produces, and the values the configuration object holds.
  Python is dynamically typed: the dataclass annotates its fields with \<^verbatim>\<open>str\<close> but
  never checks them, so a field holds whatever value it was given.

  A float is kept as sign, mantissa and exponent (or an infinity, or not-a-number); only
  its truth value matters below. A dict is an association list read with \<open>map_of\<close>:
  its keys are the first components, and JSON object keys are always strings.
\<close>

datatype pyfloat = Finite bool nat int | Infinity bool | NaN

datatype pyvalue =
    PyNone
  | PyBool bool
  | PyInt int
  | PyFloat pyfloat
  | PyStr string
  | PyList "pyvalue list"
  | PyDict "(string \<times> pyvalue) list"

text \<open>Python's truth value testing, as used by \<^verbatim>\<open>not x\<close> and \<^verbatim>\<open>if x\<close>.\<close>

fun truthy_float :: "pyfloat \<Rightarrow> bool" where
  "truthy_float (Finite s m e) = (m \<noteq> 0)"
| "truthy_float (Infinity s) = True"
| "truthy_float NaN = True"

fun truthy :: "pyvalue \<Rightarrow> bool" where
  "truthy PyNone = False"
| "truthy (PyBool b) = b"
| "truthy (PyInt n) = (n \<noteq> 0)"
| "truthy (PyFloat f) = truthy_float f"
| "truthy (PyStr s) = (s \<noteq> [])"
| "truthy (PyList xs) = (xs \<noteq> [])"
| "truthy (PyDict kvs) = (kvs \<noteq> [])"

section \<open>Exceptions and outcomes\<close>

text \<open>
  \<open>PySuiteCRMConfigException\<close> is the one exception class the module declares; it carries
  the message it was raised with. The others are Python's own: \<open>TypeError\<close> from a call
  whose arguments do not fit the signature, \<open>OSError\<close> from \<^verbatim>\<open>open\<close>, and
  \<open>Decoder_Exception cls\<close>, an exception raised inside \<^verbatim>\<open>json.load\<close>, of the class named
  \<open>cls\<close>: \<^verbatim>\<open>JSONDecodeError\<close> for a text that the decoder does not take for a JSON
  document, and whatever else the decoder raises (\<^verbatim>\<open>UnicodeDecodeError\<close> for bytes that
  are not text, \<^verbatim>\<open>RecursionError\<close> for a nesting too deep, \<^verbatim>\<open>ValueError\<close> for an integer
  of too many digits). The set of these classes is left open. The decoder is library
  code and does not know the module's class, so no \<open>Decoder_Exception\<close> is a
  \<open>PySuiteCRMConfigException\<close>.
\<close>

datatype error =
    PySuiteCRMConfigException string
  | TypeError
  | OSError
  | Decoder_Exception string

fun is_PySuiteCRMConfigException :: "error \<Rightarrow> bool" where
  "is_PySuiteCRMConfigException (PySuiteCRMConfigException msg) = True"
| "is_PySuiteCRMConfigException e = False"

text \<open>
  A method that returns \<^verbatim>\<open>None\<close> and mutates \<^verbatim>\<open>self\<close> is a function from the object
  to an outcome and the object afterwards: the object outlives a raised exception.
\<close>

datatype outcome = Returned | Raised error

section \<open>The configuration object\<close>

record PySuiteCRMConfig =
  url :: pyvalue
  client_id :: pyvalue
  client_secret :: pyvalue
  custom_modules :: pyvalue

definition PySuiteCRMConfig_fields :: "string list" where
  "PySuiteCRMConfig_fields = [''url'', ''client_id'', ''client_secret'', ''custom_modules'']"

text \<open>
  The generated \<^verbatim>\<open>__init__(self, url, client_id, client_secret, custom_modules=<factory>)\<close>
  called with keyword arguments only, \<^verbatim>\<open>PySuiteCRMConfig(**kwargs)\<close>. A keyword that names
  no parameter (or names \<^verbatim>\<open>self\<close>) and a missing required parameter are both a
  \<open>TypeError\<close>. \<^verbatim>\<open>custom_modules\<close> is \<^verbatim>\<open>list()\<close> when it is not passed.
\<close>

definition PySuiteCRMConfig_init :: "(string \<times> pyvalue) list \<Rightarrow> error + PySuiteCRMConfig" where
  "PySuiteCRMConfig_init kwargs =
     (if \<not> list_all (\<lambda>k. k \<in> set PySuiteCRMConfig_fields) (map fst kwargs) then Inl TypeError
      else
        (case map_of kwargs ''url'' of
           None \<Rightarrow> Inl TypeError
         | Some u \<Rightarrow>
        (case map_of kwargs ''client_id'' of
           None \<Rightarrow> Inl TypeError
         | Some c \<Rightarrow>
        (case map_of kwargs ''client_secret'' of
           None \<Rightarrow> Inl TypeError
         | Some s \<Rightarrow>
             Inr \<lparr>url = u, client_id = c, client_secret = s,
                  custom_modules =
                    (case map_of kwargs ''custom_modules'' of
                       None \<Rightarrow> PyList []
                     | Some m \<Rightarrow> m)\<rparr>))))"

section \<open>The parser protocol\<close>

text \<open>
  Every parser has the attribute \<^verbatim>\<open>parsed_config\<close>, \<^verbatim>\<open>None\<close> until a configuration
  is parsed. An instance of the dataclass is always true in a condition (the class defines
  neither \<^verbatim>\<open>__bool__\<close> nor \<^verbatim>\<open>__len__\<close>), so \<^verbatim>\<open>if self.parsed_config\<close> asks whether the
  attribute is set.
\<close>

record ConfigParser =
  parsed_config :: "PySuiteCRMConfig option"

section \<open>The ENV parser\<close>

type_synonym environ = "string \<rightharpoonup> string"

type_synonym ENVParser = ConfigParser

definition environ_get :: "environ \<Rightarrow> string \<Rightarrow> pyvalue" where
  "environ_get environ key = (case environ key of None \<Rightarrow> PyNone | Some v \<Rightarrow> PyStr v)"

definition ENVParser_init :: ENVParser where
  "ENVParser_init = \<lparr>parsed_config = None\<rparr>"

definition ENVParser_parse_config :: "environ \<Rightarrow> ENVParser \<Rightarrow> outcome \<times> ENVParser" where
  "ENVParser_parse_config environ self =
     (case parsed_config self of
        Some cfg \<Rightarrow> (Returned, self)
      | None \<Rightarrow>
          (let url = environ_get environ ''PYSUITECRM_URL'';
               client_id = environ_get environ ''PYSUITECRM_CLIENT_ID'';
               client_secret = environ_get environ ''PYSUITECRM_CLIENT_SECRET''
           in if \<not> truthy url \<or> \<not> truthy client_id \<or> \<not> truthy client_secret
              then (Raised (PySuiteCRMConfigException ''Invalid ENV variables.''), self)
              else (Returned,
                    self\<lparr>parsed_config :=
                      Some \<lparr>url = url, client_id = client_id, client_secret = client_secret,
                            custom_modules = PyList []\<rparr>\<rparr>)))"

section \<open>The JSON parser\<close>

text \<open>
  The file system gives each path either no readable file (\<^verbatim>\<open>open\<close> raises) or a file.
  A file is described by what \<^verbatim>\<open>json.load\<close> does on it: it raises an exception of
  some class, or it returns a value. This is the decoder's verdict, not the JSON
  standard's: the decoder rejects some valid documents (a nesting too deep) and accepts
  some texts that are not JSON (\<^verbatim>\<open>NaN\<close>, which it decodes to the float not-a-number; no
  JSON document decodes to that value).
\<close>

datatype file_content = Rejected string | JSON pyvalue

type_synonym filesystem = "string \<rightharpoonup> file_content"

fun json_load :: "file_content \<Rightarrow> error + pyvalue" where
  "json_load (Rejected cls) = Inl (Decoder_Exception cls)"
| "json_load (JSON v) = Inr v"

text \<open>
  The attribute \<^verbatim>\<open>_json_config\<close> is the field \<open>json_config\<close>; the local variable of
  that name in \<^verbatim>\<open>_load_file\<close> is \<open>doc\<close>.
\<close>

record JSONParser = ConfigParser +
  json_config :: pyvalue

definition load_file :: "filesystem \<Rightarrow> string \<Rightarrow> error + pyvalue" where
  "load_file fs config_file =
     (case fs config_file of
        None \<Rightarrow> Inl OSError
      | Some infile \<Rightarrow>
          (case json_load infile of
             Inl e \<Rightarrow> Inl e
           | Inr doc \<Rightarrow>
               if \<not> truthy doc
               then Inl (PySuiteCRMConfigException ''Could not load JSON file.'')
               else Inr doc))"

definition JSONParser_init :: "filesystem \<Rightarrow> string \<Rightarrow> error + JSONParser" where
  "JSONParser_init fs config_file =
     (case load_file fs config_file of
        Inl e \<Rightarrow> Inl e
      | Inr doc \<Rightarrow> Inr \<lparr>parsed_config = None, json_config = doc\<rparr>)"

definition JSONParser_parse_config :: "JSONParser \<Rightarrow> outcome \<times> JSONParser" where
  "JSONParser_parse_config self =
     (case parsed_config self of
        Some cfg \<Rightarrow> (Returned, self)
      | None \<Rightarrow>
          (case json_config self of
             PyDict kwargs \<Rightarrow>
               (case PySuiteCRMConfig_init kwargs of
                  Inl e \<Rightarrow> (Raised e, self)
                | Inr cfg \<Rightarrow> (Returned, self\<lparr>parsed_config := Some cfg\<rparr>))
           | _ \<Rightarrow> (Raised TypeError, self)))"

section \<open>Vocabulary of the properties\<close>

text \<open>A value that is a dict (a decoded JSON object); a value that is a non-empty string.\<close>

fun is_dict :: "pyvalue \<Rightarrow> bool" where
  "is_dict (PyDict kvs) = True"
| "is_dict v = False"

fun nonempty_str :: "pyvalue \<Rightarrow> bool" where
  "nonempty_str (PyStr s) = (s \<noteq> [])"
| "nonempty_str v = False"

text \<open>
  What \<^verbatim>\<open>os.environ.get\<close> finds for a variable that is absent or bound to the empty
  string.
\<close>

fun absent_or_empty :: "string option \<Rightarrow> bool" where
  "absent_or_empty None = True"
| "absent_or_empty (Some v) = (v = [])"

text \<open>An outcome that is a raised \<open>PySuiteCRMConfigException\<close>, whatever its message.\<close>

fun raises_PySuiteCRMConfigException :: "outcome \<Rightarrow> bool" where
  "raises_PySuiteCRMConfigException (Raised e) = is_PySuiteCRMConfigException e"
| "raises_PySuiteCRMConfigException Returned = False"

section \<open>Facts shared by the properties\<close>

lemma truthy_environ_get:
  "truthy (environ_get environ key) = (\<not> absent_or_empty (environ key))"
  by (cases "environ key") (simp_all add: environ_get_def)

lemma nonempty_str_environ_get:
  "nonempty_str (environ_get environ key) = (\<not> absent_or_empty (environ key))"
  by (cases "environ key") (simp_all add: environ_get_def)

lemma ENVParser_parse_config_set:
  "parsed_config self = Some cfg \<Longrightarrow> ENVParser_parse_config environ self = (Returned, self)"
  by (simp add: ENVParser_parse_config_def)

lemma ENVParser_parse_config_unset:
  assumes "parsed_config self = None"
  shows "ENVParser_parse_config environ self =
     (if absent_or_empty (environ ''PYSUITECRM_URL'')
         \<or> absent_or_empty (environ ''PYSUITECRM_CLIENT_ID'')
         \<or> absent_or_empty (environ ''PYSUITECRM_CLIENT_SECRET'')
      then (Raised (PySuiteCRMConfigException ''Invalid ENV variables.''), self)
      else (Returned,
            self\<lparr>parsed_config :=
              Some \<lparr>url = environ_get environ ''PYSUITECRM_URL'',
                    client_id = environ_get environ ''PYSUITECRM_CLIENT_ID'',
                    client_secret = environ_get environ ''PYSUITECRM_CLIENT_SECRET'',
                    custom_modules = PyList []\<rparr>\<rparr>))"
  using assms
  by (simp add: ENVParser_parse_config_def Let_def truthy_environ_get)

lemma PySuiteCRMConfig_init_error:
  "PySuiteCRMConfig_init kwargs = Inl e \<Longrightarrow> e = TypeError"
  by (auto simp: PySuiteCRMConfig_init_def split: if_splits option.splits)

lemma PySuiteCRMConfig_init_unexpected:
  "k \<in> set (map fst kwargs) \<Longrightarrow> k \<notin> set PySuiteCRMConfig_fields \<Longrightarrow>
   PySuiteCRMConfig_init kwargs = Inl TypeError"
  by (auto simp: PySuiteCRMConfig_init_def list_all_iff)

lemma PySuiteCRMConfig_init_missing:
  assumes "k \<in> {''url'', ''client_id'', ''client_secret''}" and "k \<notin> set (map fst kwargs)"
  shows "PySuiteCRMConfig_init kwargs = Inl TypeError"
proof -
  from assms(2) have "map_of kwargs k = None"
    by (simp add: map_of_eq_None_iff)
  with assms(1) show ?thesis
    by (auto simp: PySuiteCRMConfig_init_def split: option.splits)
qed

lemma PySuiteCRMConfig_init_ok:
  "PySuiteCRMConfig_init kwargs = Inr cfg \<Longrightarrow>
   map_of kwargs ''url'' = Some (url cfg) \<and>
   map_of kwargs ''client_id'' = Some (client_id cfg) \<and>
   map_of kwargs ''client_secret'' = Some (client_secret cfg)"
  by (auto simp: PySuiteCRMConfig_init_def split: if_splits option.splits)

lemma JSONParser_init_decoded:
  "fs config_file = Some (JSON doc) \<Longrightarrow>
   JSONParser_init fs config_file =
     (if truthy doc then Inr \<lparr>parsed_config = None, json_config = doc\<rparr>
      else Inl (PySuiteCRMConfigException ''Could not load JSON file.''))"
  by (simp add: JSONParser_init_def load_file_def)

lemma JSONParser_init_Inr:
  "JSONParser_init fs config_file = Inr self \<Longrightarrow>
   parsed_config self = None \<and> truthy (json_config self)"
  by (auto simp: JSONParser_init_def load_file_def split: option.splits sum.splits if_splits)

lemma JSONParser_parse_config_not_dict:
  "parsed_config self = None \<Longrightarrow> \<not> is_dict (json_config self) \<Longrightarrow>
   JSONParser_parse_config self = (Raised TypeError, self)"
  by (cases "json_config self") (simp_all add: JSONParser_parse_config_def)

lemma JSONParser_parse_config_raised:
  "JSONParser_parse_config self = (Raised e, self') \<Longrightarrow>
   self' = self \<and> parsed_config self = None \<and> e = TypeError"
  by (auto simp: JSONParser_parse_config_def
           split: option.splits pyvalue.splits sum.splits dest: PySuiteCRMConfig_init_error)

section \<open>The ENV parser\<close>

text \<open>
  C1. When the environment binds \<^verbatim>\<open>PYSUITECRM_URL\<close>, \<^verbatim>\<open>PYSUITECRM_CLIENT_ID\<close> and
  \<^verbatim>\<open>PYSUITECRM_CLIENT_SECRET\<close> to non-empty strings, \<open>parse_config\<close> on a freshly
  constructed ENV parser returns, and the parser then holds a configuration with
  exactly these three values and \<open>custom_modules\<close> the empty list.
\<close>

theorem ENVParser_parse_config_valid:
  assumes "environ ''PYSUITECRM_URL'' = Some u" and "u \<noteq> []"
    and "environ ''PYSUITECRM_CLIENT_ID'' = Some c" and "c \<noteq> []"
    and "environ ''PYSUITECRM_CLIENT_SECRET'' = Some s" and "s \<noteq> []"
  shows "ENVParser_parse_config environ ENVParser_init =
           (Returned,
            \<lparr>parsed_config =
               Some \<lparr>url = PyStr u, client_id = PyStr c, client_secret = PyStr s,
                     custom_modules = PyList []\<rparr>\<rparr>)"
  using assms
  by (simp add: ENVParser_parse_config_def ENVParser_init_def environ_get_def)

theorem ENVParser_parse_config_valid_witness:
  "ENVParser_parse_config
     [''PYSUITECRM_URL'' \<mapsto> ''https://crm.example.com'',
      ''PYSUITECRM_CLIENT_ID'' \<mapsto> ''abc'',
      ''PYSUITECRM_CLIENT_SECRET'' \<mapsto> ''s3cr3t''] ENVParser_init =
   (Returned,
    \<lparr>parsed_config =
       Some \<lparr>url = PyStr ''https://crm.example.com'', client_id = PyStr ''abc'',
             client_secret = PyStr ''s3cr3t'', custom_modules = PyList []\<rparr>\<rparr>)"
  by (rule ENVParser_parse_config_valid) simp_all

text \<open>
  C3. Once \<open>parse_config\<close> has returned on an ENV parser, a second call returns with the
  parser unchanged, and so with the same configuration in \<open>parsed_config\<close>, whatever the
  environment \<open>environ'\<close> of the second call is: the variables may have been changed or
  removed in between. The second call does not depend on the environment at all.
\<close>

theorem ENVParser_parse_config_cached:
  assumes "ENVParser_parse_config environ self = (Returned, self')"
  shows "parsed_config self' \<noteq> None \<and>
         ENVParser_parse_config environ' self' = (Returned, self')"
proof (cases "parsed_config self")
  case None
  with assms have "\<exists>cfg. self' = self\<lparr>parsed_config := Some cfg\<rparr>"
    by (auto simp: ENVParser_parse_config_unset split: if_splits)
  then obtain cfg where "parsed_config self' = Some cfg" by auto
  then show ?thesis by (simp add: ENVParser_parse_config_set)
next
  case (Some cfg)
  with assms have "self' = self" by (simp add: ENVParser_parse_config_set)
  with Some show ?thesis by (simp add: ENVParser_parse_config_set)
qed

theorem ENVParser_parse_config_cached_witness:
  "ENVParser_parse_config
     [''PYSUITECRM_URL'' \<mapsto> ''u'', ''PYSUITECRM_CLIENT_ID'' \<mapsto> ''c'',
      ''PYSUITECRM_CLIENT_SECRET'' \<mapsto> ''s''] ENVParser_init =
     (Returned,
      \<lparr>parsed_config =
         Some \<lparr>url = PyStr ''u'', client_id = PyStr ''c'', client_secret = PyStr ''s'',
               custom_modules = PyList []\<rparr>\<rparr>) \<and>
   ENVParser_parse_config Map.empty
     \<lparr>parsed_config =
        Some \<lparr>url = PyStr ''u'', client_id = PyStr ''c'', client_secret = PyStr ''s'',
              custom_modules = PyList []\<rparr>\<rparr> =
     (Returned,
      \<lparr>parsed_config =
         Some \<lparr>url = PyStr ''u'', client_id = PyStr ''c'', client_secret = PyStr ''s'',
               custom_modules = PyList []\<rparr>\<rparr>)"
proof -
  have first:
    "ENVParser_parse_config
       [''PYSUITECRM_URL'' \<mapsto> ''u'', ''PYSUITECRM_CLIENT_ID'' \<mapsto> ''c'',
        ''PYSUITECRM_CLIENT_SECRET'' \<mapsto> ''s''] ENVParser_init =
     (Returned,
      \<lparr>parsed_config =
         Some \<lparr>url = PyStr ''u'', client_id = PyStr ''c'', client_secret = PyStr ''s'',
               custom_modules = PyList []\<rparr>\<rparr>)"
    by (simp add: ENVParser_parse_config_def ENVParser_init_def environ_get_def)
  from ENVParser_parse_config_cached [OF first, of Map.empty] first
  show ?thesis by simp
qed

text \<open>
  C5. On a freshly constructed ENV parser: when one of the three variables is absent or
  bound to the empty string, \<open>parse_config\<close> raises \<open>PySuiteCRMConfigException\<close> with the
  message \<^verbatim>\<open>Invalid ENV variables.\<close> and \<open>parsed_config\<close> is still \<^verbatim>\<open>None\<close>; when none
  of them is, \<open>parse_config\<close> returns.
\<close>

theorem ENVParser_parse_config_invalid:
  "(absent_or_empty (environ ''PYSUITECRM_URL'')
      \<or> absent_or_empty (environ ''PYSUITECRM_CLIENT_ID'')
      \<or> absent_or_empty (environ ''PYSUITECRM_CLIENT_SECRET'')
    \<longrightarrow> fst (ENVParser_parse_config environ ENVParser_init) =
          Raised (PySuiteCRMConfigException ''Invalid ENV variables.'')
      \<and> parsed_config (snd (ENVParser_parse_config environ ENVParser_init)) = None)
   \<and> (\<not> (absent_or_empty (environ ''PYSUITECRM_URL'')
           \<or> absent_or_empty (environ ''PYSUITECRM_CLIENT_ID'')
           \<or> absent_or_empty (environ ''PYSUITECRM_CLIENT_SECRET''))
    \<longrightarrow> fst (ENVParser_parse_config environ ENVParser_init) = Returned)"
proof -
  have "parsed_config ENVParser_init = None" by (simp add: ENVParser_init_def)
  then show ?thesis by (simp add: ENVParser_parse_config_unset)
qed

theorem ENVParser_parse_config_invalid_witness:
  "absent_or_empty
     ([''PYSUITECRM_URL'' \<mapsto> ''u'', ''PYSUITECRM_CLIENT_SECRET'' \<mapsto> ''s'']
        ''PYSUITECRM_CLIENT_ID'')
   \<and> fst (ENVParser_parse_config
        [''PYSUITECRM_URL'' \<mapsto> ''u'', ''PYSUITECRM_CLIENT_SECRET'' \<mapsto> ''s'']
        ENVParser_init) = Raised (PySuiteCRMConfigException ''Invalid ENV variables.'')
   \<and> parsed_config (snd (ENVParser_parse_config
        [''PYSUITECRM_URL'' \<mapsto> ''u'', ''PYSUITECRM_CLIENT_SECRET'' \<mapsto> ''s'']
        ENVParser_init)) = None
   \<and> absent_or_empty
       ([''PYSUITECRM_URL'' \<mapsto> '''', ''PYSUITECRM_CLIENT_ID'' \<mapsto> ''c'',
         ''PYSUITECRM_CLIENT_SECRET'' \<mapsto> ''s''] ''PYSUITECRM_URL'')
   \<and> fst (ENVParser_parse_config
        [''PYSUITECRM_URL'' \<mapsto> '''', ''PYSUITECRM_CLIENT_ID'' \<mapsto> ''c'',
         ''PYSUITECRM_CLIENT_SECRET'' \<mapsto> ''s'']
        ENVParser_init) = Raised (PySuiteCRMConfigException ''Invalid ENV variables.'')
   \<and> fst (ENVParser_parse_config
        [''PYSUITECRM_URL'' \<mapsto> ''u'', ''PYSUITECRM_CLIENT_ID'' \<mapsto> ''c'',
         ''PYSUITECRM_CLIENT_SECRET'' \<mapsto> ''s'']
        ENVParser_init) = Returned"
  using
    ENVParser_parse_config_invalid
      [of "[''PYSUITECRM_URL'' \<mapsto> ''u'', ''PYSUITECRM_CLIENT_SECRET'' \<mapsto> ''s'']"]
    ENVParser_parse_config_invalid
      [of "[''PYSUITECRM_URL'' \<mapsto> '''', ''PYSUITECRM_CLIENT_ID'' \<mapsto> ''c'',
            ''PYSUITECRM_CLIENT_SECRET'' \<mapsto> ''s'']"]
    ENVParser_parse_config_invalid
      [of "[''PYSUITECRM_URL'' \<mapsto> ''u'', ''PYSUITECRM_CLIENT_ID'' \<mapsto> ''c'',
            ''PYSUITECRM_CLIENT_SECRET'' \<mapsto> ''s'']"]
  by simp

section \<open>The JSON parser: construction\<close>

text \<open>
  C4, as the code has it. When \<^verbatim>\<open>json.load\<close> raises on the content of the file
  (\<^verbatim>\<open>JSONDecodeError\<close> for a text it does not take for a JSON document, or any other
  exception of the decoder), constructing the JSON parser fails with that very
  exception: \<^verbatim>\<open>_load_file\<close> has no handler. The exception is not a
  \<open>PySuiteCRMConfigException\<close>, and no parser is constructed.
\<close>

theorem JSONParser_init_not_json:
  assumes "fs config_file = Some infile" and "json_load infile = Inl e"
  shows "JSONParser_init fs config_file = Inl e
         \<and> \<not> is_PySuiteCRMConfigException e
         \<and> (\<forall>self. JSONParser_init fs config_file \<noteq> Inr self)"
proof -
  from assms(2) obtain cls where "e = Decoder_Exception cls"
    by (cases infile) auto
  moreover from assms have "JSONParser_init fs config_file = Inl e"
    by (simp add: JSONParser_init_def load_file_def)
  ultimately show ?thesis by simp
qed

theorem JSONParser_init_not_json_witness:
  "json_load (Rejected ''JSONDecodeError'') = Inl (Decoder_Exception ''JSONDecodeError'')
   \<and> JSONParser_init [''config.json'' \<mapsto> Rejected ''JSONDecodeError''] ''config.json'' =
     Inl (Decoder_Exception ''JSONDecodeError'')
   \<and> json_load (Rejected ''RecursionError'') = Inl (Decoder_Exception ''RecursionError'')
   \<and> JSONParser_init [''config.json'' \<mapsto> Rejected ''RecursionError''] ''config.json'' =
     Inl (Decoder_Exception ''RecursionError'')"
  using
    JSONParser_init_not_json
      [of "[''config.json'' \<mapsto> Rejected ''JSONDecodeError'']" "''config.json''"
          "Rejected ''JSONDecodeError''" "Decoder_Exception ''JSONDecodeError''"]
    JSONParser_init_not_json
      [of "[''config.json'' \<mapsto> Rejected ''RecursionError'']" "''config.json''"
          "Rejected ''RecursionError''" "Decoder_Exception ''RecursionError''"]
  by simp

text \<open>
  The claim C4 as the specification states it fails on two files whose content is not
  valid JSON. On a text the decoder rejects with \<^verbatim>\<open>JSONDecodeError\<close>, the constructor
  raises that exception, not the module's own. On the text \<^verbatim>\<open>NaN\<close>, which is not JSON
  but which the decoder accepts, the constructor does not fail at all: not-a-number is
  true in a condition.
\<close>

theorem JSONParser_init_not_json_counterexample:
  "JSONParser_init [''config.json'' \<mapsto> Rejected ''JSONDecodeError''] ''config.json'' =
     Inl (Decoder_Exception ''JSONDecodeError'')
   \<and> \<not> is_PySuiteCRMConfigException (Decoder_Exception ''JSONDecodeError'')
   \<and> JSONParser_init [''config.json'' \<mapsto> JSON (PyFloat NaN)] ''config.json'' =
     Inr \<lparr>parsed_config = None, json_config = PyFloat NaN\<rparr>"
  by (simp add: JSONParser_init_def load_file_def)

text \<open>
  C9. When the file decodes to a document that is false in a condition (\<^verbatim>\<open>null\<close>,
  \<^verbatim>\<open>{}\<close>, \<^verbatim>\<open>[]\<close>, the empty string, zero, \<^verbatim>\<open>false\<close>), constructing the JSON parser
  raises \<open>PySuiteCRMConfigException\<close> with the message \<^verbatim>\<open>Could not load JSON file.\<close>;
  the constructor yields no parser.
\<close>

theorem JSONParser_init_falsy:
  assumes "fs config_file = Some (JSON doc)" and "\<not> truthy doc"
  shows "JSONParser_init fs config_file =
           Inl (PySuiteCRMConfigException ''Could not load JSON file.'')
         \<and> is_PySuiteCRMConfigException (PySuiteCRMConfigException ''Could not load JSON file.'')
         \<and> (\<forall>self. JSONParser_init fs config_file \<noteq> Inr self)"
  using assms by (simp add: JSONParser_init_decoded)

theorem JSONParser_init_falsy_witness:
  "JSONParser_init [''config.json'' \<mapsto> JSON (PyDict [])] ''config.json'' =
     Inl (PySuiteCRMConfigException ''Could not load JSON file.'')
   \<and> JSONParser_init [''config.json'' \<mapsto> JSON PyNone] ''config.json'' =
     Inl (PySuiteCRMConfigException ''Could not load JSON file.'')
   \<and> JSONParser_init [''config.json'' \<mapsto> JSON (PyList [])] ''config.json'' =
     Inl (PySuiteCRMConfigException ''Could not load JSON file.'')"
  using
    JSONParser_init_falsy [of "[''config.json'' \<mapsto> JSON (PyDict [])]" "''config.json''" "PyDict []"]
    JSONParser_init_falsy [of "[''config.json'' \<mapsto> JSON PyNone]" "''config.json''" PyNone]
    JSONParser_init_falsy [of "[''config.json'' \<mapsto> JSON (PyList [])]" "''config.json''" "PyList []"]
  by simp

section \<open>The JSON parser: parsing\<close>

text \<open>
  C8. For a file that decodes to the JSON object with exactly the keys \<^verbatim>\<open>url\<close>,
  \<^verbatim>\<open>client_id\<close> and \<^verbatim>\<open>client_secret\<close> (every key is one of the three, and each of the
  three is bound), bound to strings \<open>u\<close>, \<open>c\<close> and \<open>s\<close>, constructing the JSON parser
  succeeds, and \<open>parse_config\<close> returns and stores the configuration with these three
  values and \<open>custom_modules\<close> the empty list. The specification's example is the
  instance with the strings \<^verbatim>\<open>u\<close>, \<^verbatim>\<open>c\<close> and \<^verbatim>\<open>s\<close>.
\<close>

theorem JSONParser_parse_config_three_keys:
  assumes "fs config_file = Some (JSON (PyDict kwargs))"
    and "list_all (\<lambda>k. k \<in> {''url'', ''client_id'', ''client_secret''}) (map fst kwargs)"
    and "map_of kwargs ''url'' = Some (PyStr u)"
    and "map_of kwargs ''client_id'' = Some (PyStr c)"
    and "map_of kwargs ''client_secret'' = Some (PyStr s)"
  shows "JSONParser_init fs config_file =
           Inr \<lparr>parsed_config = None, json_config = PyDict kwargs\<rparr>
         \<and> JSONParser_parse_config \<lparr>parsed_config = None, json_config = PyDict kwargs\<rparr> =
           (Returned,
            \<lparr>parsed_config =
               Some \<lparr>url = PyStr u, client_id = PyStr c, client_secret = PyStr s,
                     custom_modules = PyList []\<rparr>,
             json_config = PyDict kwargs\<rparr>)"
proof -
  from assms(3) have "kwargs \<noteq> []" by auto
  with assms(1) have init: "JSONParser_init fs config_file =
      Inr \<lparr>parsed_config = None, json_config = PyDict kwargs\<rparr>"
    by (simp add: JSONParser_init_decoded)
  have "k \<in> set PySuiteCRMConfig_fields \<and> k \<noteq> ''custom_modules''"
    if "k \<in> {''url'', ''client_id'', ''client_secret''}" for k
    using that by (auto simp: PySuiteCRMConfig_fields_def)
  with assms(2) have known: "list_all (\<lambda>k. k \<in> set PySuiteCRMConfig_fields) (map fst kwargs)"
    and "''custom_modules'' \<notin> set (map fst kwargs)"
    unfolding list_all_iff by blast+
  then have "map_of kwargs ''custom_modules'' = None"
    by (simp add: map_of_eq_None_iff)
  with known assms(3-5) have "PySuiteCRMConfig_init kwargs =
      Inr \<lparr>url = PyStr u, client_id = PyStr c, client_secret = PyStr s,
           custom_modules = PyList []\<rparr>"
    by (simp add: PySuiteCRMConfig_init_def)
  then have "JSONParser_parse_config \<lparr>parsed_config = None, json_config = PyDict kwargs\<rparr> =
      (Returned,
       \<lparr>parsed_config =
          Some \<lparr>url = PyStr u, client_id = PyStr c, client_secret = PyStr s,
                custom_modules = PyList []\<rparr>,
        json_config = PyDict kwargs\<rparr>)"
    by (simp add: JSONParser_parse_config_def)
  with init show ?thesis by simp
qed

theorem JSONParser_parse_config_three_keys_witness:
  "JSONParser_init
     [''config.json'' \<mapsto>
        JSON (PyDict [(''url'', PyStr ''u''), (''client_id'', PyStr ''c''),
                      (''client_secret'', PyStr ''s'')])] ''config.json'' =
     Inr \<lparr>parsed_config = None,
          json_config = PyDict [(''url'', PyStr ''u''), (''client_id'', PyStr ''c''),
                                (''client_secret'', PyStr ''s'')]\<rparr>
   \<and> JSONParser_parse_config
       \<lparr>parsed_config = None,
        json_config = PyDict [(''url'', PyStr ''u''), (''client_id'', PyStr ''c''),
                              (''client_secret'', PyStr ''s'')]\<rparr> =
     (Returned,
      \<lparr>parsed_config =
         Some \<lparr>url = PyStr ''u'', client_id = PyStr ''c'', client_secret = PyStr ''s'',
               custom_modules = PyList []\<rparr>,
       json_config = PyDict [(''url'', PyStr ''u''), (''client_id'', PyStr ''c''),
                             (''client_secret'', PyStr ''s'')]\<rparr>)"
  by (rule JSONParser_parse_config_three_keys) simp_all

text \<open>
  C2, as the code has it. On a constructed JSON parser whose document is an object with
  a key that names no field of the configuration, or without one of the keys
  \<^verbatim>\<open>url\<close>, \<^verbatim>\<open>client_id\<close>, \<^verbatim>\<open>client_secret\<close>, the first \<open>parse_config\<close> raises the
  \<open>TypeError\<close> of the dataclass constructor, which is not a \<open>PySuiteCRMConfigException\<close>,
  and leaves the parser as it was.
\<close>

theorem JSONParser_parse_config_mismatch:
  assumes "JSONParser_init fs config_file = Inr self"
    and "json_config self = PyDict kwargs"
    and "(\<exists>k. k \<in> set (map fst kwargs) \<and> k \<notin> set PySuiteCRMConfig_fields)
         \<or> ''url'' \<notin> set (map fst kwargs)
         \<or> ''client_id'' \<notin> set (map fst kwargs)
         \<or> ''client_secret'' \<notin> set (map fst kwargs)"
  shows "JSONParser_parse_config self = (Raised TypeError, self)
         \<and> \<not> raises_PySuiteCRMConfigException (fst (JSONParser_parse_config self))"
proof -
  from assms(1) have unset: "parsed_config self = None"
    by (simp add: JSONParser_init_Inr)
  from assms(3) have "PySuiteCRMConfig_init kwargs = Inl TypeError"
    using PySuiteCRMConfig_init_unexpected [of _ kwargs]
      PySuiteCRMConfig_init_missing [of _ kwargs]
    by blast
  with unset assms(2) have "JSONParser_parse_config self = (Raised TypeError, self)"
    by (simp add: JSONParser_parse_config_def)
  then show ?thesis by simp
qed

theorem JSONParser_parse_config_mismatch_witness:
  "JSONParser_parse_config
     \<lparr>parsed_config = None,
      json_config = PyDict [(''url'', PyStr ''u''), (''client_id'', PyStr ''c'')]\<rparr> =
     (Raised TypeError,
      \<lparr>parsed_config = None,
       json_config = PyDict [(''url'', PyStr ''u''), (''client_id'', PyStr ''c'')]\<rparr>)"
proof -
  have init: "JSONParser_init
      [''config.json'' \<mapsto> JSON (PyDict [(''url'', PyStr ''u''), (''client_id'', PyStr ''c'')])]
      ''config.json'' =
    Inr \<lparr>parsed_config = None,
         json_config = PyDict [(''url'', PyStr ''u''), (''client_id'', PyStr ''c'')]\<rparr>"
    by (simp add: JSONParser_init_def load_file_def)
  from JSONParser_parse_config_mismatch
    [OF init, of "[(''url'', PyStr ''u''), (''client_id'', PyStr ''c'')]"]
  show ?thesis by simp
qed

text \<open>
  The claim C2 as the specification states it fails on the specification's own example,
  the object with the additional key \<^verbatim>\<open>unexpected\<close>: \<open>parse_config\<close> raises \<open>TypeError\<close>,
  not the module's own exception.
\<close>

theorem JSONParser_parse_config_mismatch_counterexample:
  "JSONParser_init
     [''config.json'' \<mapsto>
        JSON (PyDict [(''url'', PyStr ''u''), (''client_id'', PyStr ''c''),
                      (''client_secret'', PyStr ''s''), (''unexpected'', PyStr ''x'')])]
     ''config.json'' =
     Inr \<lparr>parsed_config = None,
          json_config = PyDict [(''url'', PyStr ''u''), (''client_id'', PyStr ''c''),
                                (''client_secret'', PyStr ''s''), (''unexpected'', PyStr ''x'')]\<rparr>
   \<and> fst (JSONParser_parse_config
       \<lparr>parsed_config = None,
        json_config = PyDict [(''url'', PyStr ''u''), (''client_id'', PyStr ''c''),
                              (''client_secret'', PyStr ''s''), (''unexpected'', PyStr ''x'')]\<rparr>) =
     Raised TypeError
   \<and> \<not> raises_PySuiteCRMConfigException (fst (JSONParser_parse_config
       \<lparr>parsed_config = None,
        json_config = PyDict [(''url'', PyStr ''u''), (''client_id'', PyStr ''c''),
                              (''client_secret'', PyStr ''s''), (''unexpected'', PyStr ''x'')]\<rparr>))"
  by (simp add: JSONParser_init_def load_file_def JSONParser_parse_config_def
        PySuiteCRMConfig_init_def PySuiteCRMConfig_fields_def)

text \<open>
  C10. The constructor checks only that the decoded document is true in a condition, not
  that it is an object. For a file that decodes to such a value that is not an object
  (a non-empty array, a non-empty string, a non-zero number, \<^verbatim>\<open>true\<close>), constructing the
  JSON parser succeeds, and \<open>parse_config\<close> then raises a \<open>TypeError\<close>, which is not a
  \<open>PySuiteCRMConfigException\<close>.
\<close>

theorem JSONParser_parse_config_not_object:
  assumes "fs config_file = Some (JSON doc)" and "truthy doc" and "\<not> is_dict doc"
  shows "JSONParser_init fs config_file = Inr \<lparr>parsed_config = None, json_config = doc\<rparr>
         \<and> JSONParser_parse_config \<lparr>parsed_config = None, json_config = doc\<rparr> =
           (Raised TypeError, \<lparr>parsed_config = None, json_config = doc\<rparr>)
         \<and> \<not> raises_PySuiteCRMConfigException
             (fst (JSONParser_parse_config \<lparr>parsed_config = None, json_config = doc\<rparr>))"
  using assms
  by (simp add: JSONParser_init_decoded JSONParser_parse_config_not_dict)

theorem JSONParser_parse_config_not_object_witness:
  "JSONParser_init [''config.json'' \<mapsto> JSON (PyList [PyInt 1])] ''config.json'' =
     Inr \<lparr>parsed_config = None, json_config = PyList [PyInt 1]\<rparr>
   \<and> JSONParser_parse_config \<lparr>parsed_config = None, json_config = PyList [PyInt 1]\<rparr> =
     (Raised TypeError, \<lparr>parsed_config = None, json_config = PyList [PyInt 1]\<rparr>)
   \<and> JSONParser_parse_config \<lparr>parsed_config = None, json_config = PyStr ''url''\<rparr> =
     (Raised TypeError, \<lparr>parsed_config = None, json_config = PyStr ''url''\<rparr>)
   \<and> JSONParser_parse_config \<lparr>parsed_config = None, json_config = PyInt 7\<rparr> =
     (Raised TypeError, \<lparr>parsed_config = None, json_config = PyInt 7\<rparr>)"
  using
    JSONParser_parse_config_not_object
      [of "[''config.json'' \<mapsto> JSON (PyList [PyInt 1])]" "''config.json''" "PyList [PyInt 1]"]
    JSONParser_parse_config_not_object
      [of "[''config.json'' \<mapsto> JSON (PyStr ''url'')]" "''config.json''" "PyStr ''url''"]
    JSONParser_parse_config_not_object
      [of "[''config.json'' \<mapsto> JSON (PyInt 7)]" "''config.json''" "PyInt 7"]
  by simp

section \<open>Both parsers: failures and stored configurations\<close>

lemma PySuiteCRMConfig_init_accepts:
  assumes "list_all (\<lambda>k. k \<in> set PySuiteCRMConfig_fields) (map fst kwargs)"
    and "''url'' \<in> set (map fst kwargs)"
    and "''client_id'' \<in> set (map fst kwargs)"
    and "''client_secret'' \<in> set (map fst kwargs)"
  shows "\<exists>cfg. PySuiteCRMConfig_init kwargs = Inr cfg"
proof -
  have present: "\<exists>v. map_of kwargs k = Some v" if "k \<in> set (map fst kwargs)" for k
  proof (cases "map_of kwargs k")
    case None
    then have "k \<notin> set (map fst kwargs)" by (simp add: map_of_eq_None_iff)
    with that show ?thesis by simp
  next
    case (Some v)
    then show ?thesis by simp
  qed
  from present [OF assms(2)] obtain u where "map_of kwargs ''url'' = Some u" ..
  moreover from present [OF assms(3)] obtain c where "map_of kwargs ''client_id'' = Some c" ..
  moreover from present [OF assms(4)] obtain s where "map_of kwargs ''client_secret'' = Some s" ..
  ultimately show ?thesis
    using assms(1) by (simp add: PySuiteCRMConfig_init_def)
qed

text \<open>
  C6. A failing \<open>parse_config\<close> changes nothing. For the ENV parser: when the call raises,
  the parser afterwards is the parser before and its \<open>parsed_config\<close> is \<^verbatim>\<open>None\<close>, so
  that a later call under an environment with the three variables set and non-empty
  returns, on this instance as on a fresh one. For the JSON parser: when the call raises,
  the parser afterwards is the parser before and its \<open>parsed_config\<close> is \<^verbatim>\<open>None\<close>; and a
  fresh JSON parser over a file holding an object with the three required keys and no
  unknown key is constructed and parses.
\<close>

theorem parse_config_failure_keeps_unset:
  "(ENVParser_parse_config environ self = (Raised e, self') \<longrightarrow>
      self' = self \<and> parsed_config self' = None
      \<and> (\<not> absent_or_empty (environ' ''PYSUITECRM_URL'')
           \<and> \<not> absent_or_empty (environ' ''PYSUITECRM_CLIENT_ID'')
           \<and> \<not> absent_or_empty (environ' ''PYSUITECRM_CLIENT_SECRET'') \<longrightarrow>
         fst (ENVParser_parse_config environ' self') = Returned
         \<and> fst (ENVParser_parse_config environ' ENVParser_init) = Returned))
   \<and> (JSONParser_parse_config jself = (Raised e', jself') \<longrightarrow>
      jself' = jself \<and> parsed_config jself' = None)
   \<and> (fs config_file = Some (JSON (PyDict kwargs))
      \<and> list_all (\<lambda>k. k \<in> set PySuiteCRMConfig_fields) (map fst kwargs)
      \<and> ''url'' \<in> set (map fst kwargs)
      \<and> ''client_id'' \<in> set (map fst kwargs)
      \<and> ''client_secret'' \<in> set (map fst kwargs) \<longrightarrow>
      (\<exists>fresh. JSONParser_init fs config_file = Inr fresh
         \<and> fst (JSONParser_parse_config fresh) = Returned))"
proof (intro conjI impI)
  assume raised: "ENVParser_parse_config environ self = (Raised e, self')"
  show unset: "parsed_config self' = None" and same: "self' = self"
  proof -
    have "parsed_config self = None"
    proof (cases "parsed_config self")
      case (Some cfg)
      with raised show ?thesis by (simp add: ENVParser_parse_config_set)
    qed simp
    with raised show "self' = self"
      by (auto simp: ENVParser_parse_config_unset split: if_splits)
    with \<open>parsed_config self = None\<close> show "parsed_config self' = None" by simp
  qed
  assume valid: "\<not> absent_or_empty (environ' ''PYSUITECRM_URL'')
    \<and> \<not> absent_or_empty (environ' ''PYSUITECRM_CLIENT_ID'')
    \<and> \<not> absent_or_empty (environ' ''PYSUITECRM_CLIENT_SECRET'')"
  from unset valid show "fst (ENVParser_parse_config environ' self') = Returned"
    by (simp add: ENVParser_parse_config_unset)
  have "parsed_config ENVParser_init = None" by (simp add: ENVParser_init_def)
  with valid show "fst (ENVParser_parse_config environ' ENVParser_init) = Returned"
    by (simp add: ENVParser_parse_config_unset)
next
  assume raised: "JSONParser_parse_config jself = (Raised e', jself')"
  from JSONParser_parse_config_raised [OF raised]
  show "jself' = jself" and "parsed_config jself' = None" by simp_all
next
  assume corrected: "fs config_file = Some (JSON (PyDict kwargs))
    \<and> list_all (\<lambda>k. k \<in> set PySuiteCRMConfig_fields) (map fst kwargs)
    \<and> ''url'' \<in> set (map fst kwargs)
    \<and> ''client_id'' \<in> set (map fst kwargs)
    \<and> ''client_secret'' \<in> set (map fst kwargs)"
  then have "kwargs \<noteq> []" by auto
  with corrected have init: "JSONParser_init fs config_file =
      Inr \<lparr>parsed_config = None, json_config = PyDict kwargs\<rparr>"
    by (simp add: JSONParser_init_decoded)
  from corrected obtain cfg where "PySuiteCRMConfig_init kwargs = Inr cfg"
    using PySuiteCRMConfig_init_accepts [of kwargs] by blast
  then have "fst (JSONParser_parse_config \<lparr>parsed_config = None, json_config = PyDict kwargs\<rparr>)
      = Returned"
    by (simp add: JSONParser_parse_config_def)
  with init show "\<exists>fresh. JSONParser_init fs config_file = Inr fresh
      \<and> fst (JSONParser_parse_config fresh) = Returned"
    by simp
qed

theorem parse_config_failure_keeps_unset_witness:
  "ENVParser_parse_config Map.empty ENVParser_init =
     (Raised (PySuiteCRMConfigException ''Invalid ENV variables.''), ENVParser_init)
   \<and> parsed_config ENVParser_init = None
   \<and> fst (ENVParser_parse_config
        [''PYSUITECRM_URL'' \<mapsto> ''u'', ''PYSUITECRM_CLIENT_ID'' \<mapsto> ''c'',
         ''PYSUITECRM_CLIENT_SECRET'' \<mapsto> ''s''] ENVParser_init) = Returned
   \<and> JSONParser_parse_config
       \<lparr>parsed_config = None, json_config = PyDict [(''unexpected'', PyStr ''x'')]\<rparr> =
     (Raised TypeError,
      \<lparr>parsed_config = None, json_config = PyDict [(''unexpected'', PyStr ''x'')]\<rparr>)
   \<and> (\<exists>fresh.
        JSONParser_init
          [''config.json'' \<mapsto>
             JSON (PyDict [(''url'', PyStr ''u''), (''client_id'', PyStr ''c''),
                           (''client_secret'', PyStr ''s'')])] ''config.json'' = Inr fresh
        \<and> fst (JSONParser_parse_config fresh) = Returned)"
proof -
  have env: "ENVParser_parse_config Map.empty ENVParser_init =
      (Raised (PySuiteCRMConfigException ''Invalid ENV variables.''), ENVParser_init)"
    by (simp add: ENVParser_parse_config_def ENVParser_init_def environ_get_def)
  have json: "JSONParser_parse_config
      \<lparr>parsed_config = None, json_config = PyDict [(''unexpected'', PyStr ''x'')]\<rparr> =
    (Raised TypeError,
     \<lparr>parsed_config = None, json_config = PyDict [(''unexpected'', PyStr ''x'')]\<rparr>)"
    by (simp add: JSONParser_parse_config_def PySuiteCRMConfig_init_def
          PySuiteCRMConfig_fields_def)
  have known: "list_all (\<lambda>k. k \<in> set PySuiteCRMConfig_fields)
      (map fst [(''url'', PyStr ''u''), (''client_id'', PyStr ''c''),
                (''client_secret'', PyStr ''s'')])"
    by (simp add: PySuiteCRMConfig_fields_def)
  from parse_config_failure_keeps_unset
    [of Map.empty ENVParser_init "PySuiteCRMConfigException ''Invalid ENV variables.''"
        ENVParser_init
        "[''PYSUITECRM_URL'' \<mapsto> ''u'', ''PYSUITECRM_CLIENT_ID'' \<mapsto> ''c'',
          ''PYSUITECRM_CLIENT_SECRET'' \<mapsto> ''s'']"
        "\<lparr>parsed_config = None, json_config = PyDict [(''unexpected'', PyStr ''x'')]\<rparr>"
        TypeError
        "\<lparr>parsed_config = None, json_config = PyDict [(''unexpected'', PyStr ''x'')]\<rparr>"
        "[''config.json'' \<mapsto>
           JSON (PyDict [(''url'', PyStr ''u''), (''client_id'', PyStr ''c''),
                         (''client_secret'', PyStr ''s'')])]"
        "''config.json''"
        "[(''url'', PyStr ''u''), (''client_id'', PyStr ''c''),
          (''client_secret'', PyStr ''s'')]"]
    env json known
  show ?thesis by simp
qed

text \<open>
  C7, as the code has it. A configuration stored by a returning \<open>parse_config\<close> of the ENV
  parser has a non-empty string as \<open>url\<close>, as \<open>client_id\<close> and as \<open>client_secret\<close>. A
  configuration stored by a returning \<open>parse_config\<close> of the JSON parser has as \<open>url\<close>,
  \<open>client_id\<close> and \<open>client_secret\<close> the values the decoded object binds to these keys,
  whatever they are: the JSON parser and the dataclass check no value.
\<close>

theorem parse_config_stored_fields:
  "(parsed_config self = None \<and> ENVParser_parse_config environ self = (Returned, self') \<longrightarrow>
      (\<exists>cfg. parsed_config self' = Some cfg
         \<and> nonempty_str (url cfg) \<and> nonempty_str (client_id cfg)
         \<and> nonempty_str (client_secret cfg)))
   \<and> (parsed_config jself = None \<and> JSONParser_parse_config jself = (Returned, jself') \<longrightarrow>
      (\<exists>kwargs cfg. json_config jself = PyDict kwargs \<and> parsed_config jself' = Some cfg
         \<and> map_of kwargs ''url'' = Some (url cfg)
         \<and> map_of kwargs ''client_id'' = Some (client_id cfg)
         \<and> map_of kwargs ''client_secret'' = Some (client_secret cfg)))"
proof (intro conjI impI)
  assume "parsed_config self = None \<and> ENVParser_parse_config environ self = (Returned, self')"
  then show "\<exists>cfg. parsed_config self' = Some cfg
      \<and> nonempty_str (url cfg) \<and> nonempty_str (client_id cfg)
      \<and> nonempty_str (client_secret cfg)"
    by (auto simp: ENVParser_parse_config_unset nonempty_str_environ_get split: if_splits)
next
  assume stored: "parsed_config jself = None
    \<and> JSONParser_parse_config jself = (Returned, jself')"
  then obtain kwargs cfg where doc: "json_config jself = PyDict kwargs"
    and init: "PySuiteCRMConfig_init kwargs = Inr cfg"
    and after: "jself' = jself\<lparr>parsed_config := Some cfg\<rparr>"
    by (auto simp: JSONParser_parse_config_def split: pyvalue.splits sum.splits)
  from PySuiteCRMConfig_init_ok [OF init] doc after
  show "\<exists>kwargs cfg. json_config jself = PyDict kwargs \<and> parsed_config jself' = Some cfg
      \<and> map_of kwargs ''url'' = Some (url cfg)
      \<and> map_of kwargs ''client_id'' = Some (client_id cfg)
      \<and> map_of kwargs ''client_secret'' = Some (client_secret cfg)"
    by simp
qed

theorem parse_config_stored_fields_witness:
  "ENVParser_parse_config
     [''PYSUITECRM_URL'' \<mapsto> ''u'', ''PYSUITECRM_CLIENT_ID'' \<mapsto> ''c'',
      ''PYSUITECRM_CLIENT_SECRET'' \<mapsto> ''s''] \<lparr>parsed_config = None\<rparr> =
     (Returned,
      \<lparr>parsed_config =
         Some \<lparr>url = PyStr ''u'', client_id = PyStr ''c'', client_secret = PyStr ''s'',
               custom_modules = PyList []\<rparr>\<rparr>)
   \<and> JSONParser_parse_config
       \<lparr>parsed_config = None,
        json_config = PyDict [(''url'', PyInt 5), (''client_id'', PyNone),
                              (''client_secret'', PyStr '''')]\<rparr> =
     (Returned,
      \<lparr>parsed_config =
         Some \<lparr>url = PyInt 5, client_id = PyNone, client_secret = PyStr '''',
               custom_modules = PyList []\<rparr>,
       json_config = PyDict [(''url'', PyInt 5), (''client_id'', PyNone),
                             (''client_secret'', PyStr '''')]\<rparr>)"
proof -
  have env: "ENVParser_parse_config
      [''PYSUITECRM_URL'' \<mapsto> ''u'', ''PYSUITECRM_CLIENT_ID'' \<mapsto> ''c'',
       ''PYSUITECRM_CLIENT_SECRET'' \<mapsto> ''s''] \<lparr>parsed_config = None\<rparr> =
    (Returned,
     \<lparr>parsed_config =
        Some \<lparr>url = PyStr ''u'', client_id = PyStr ''c'', client_secret = PyStr ''s'',
              custom_modules = PyList []\<rparr>\<rparr>)"
    by (simp add: ENVParser_parse_config_def environ_get_def)
  have json: "JSONParser_parse_config
      \<lparr>parsed_config = None,
       json_config = PyDict [(''url'', PyInt 5), (''client_id'', PyNone),
                             (''client_secret'', PyStr '''')]\<rparr> =
    (Returned,
     \<lparr>parsed_config =
        Some \<lparr>url = PyInt 5, client_id = PyNone, client_secret = PyStr '''',
              custom_modules = PyList []\<rparr>,
      json_config = PyDict [(''url'', PyInt 5), (''client_id'', PyNone),
                            (''client_secret'', PyStr '''')]\<rparr>)"
    by (simp add: JSONParser_parse_config_def PySuiteCRMConfig_init_def
          PySuiteCRMConfig_fields_def)
  from parse_config_stored_fields
    [of "\<lparr>parsed_config = None\<rparr>"
        "[''PYSUITECRM_URL'' \<mapsto> ''u'', ''PYSUITECRM_CLIENT_ID'' \<mapsto> ''c'',
          ''PYSUITECRM_CLIENT_SECRET'' \<mapsto> ''s'']"
        "\<lparr>parsed_config =
           Some \<lparr>url = PyStr ''u'', client_id = PyStr ''c'', client_secret = PyStr ''s'',
                 custom_modules = PyList []\<rparr>\<rparr>"
        "\<lparr>parsed_config = None,
          json_config = PyDict [(''url'', PyInt 5), (''client_id'', PyNone),
                                (''client_secret'', PyStr '''')]\<rparr>"
        "\<lparr>parsed_config =
           Some \<lparr>url = PyInt 5, client_id = PyNone, client_secret = PyStr '''',
                 custom_modules = PyList []\<rparr>,
          json_config = PyDict [(''url'', PyInt 5), (''client_id'', PyNone),
                                (''client_secret'', PyStr '''')]\<rparr>"]
    env json
  show ?thesis by simp
qed

text \<open>
  The claim C7 as the specification states it fails for the JSON parser: a file holding
  the object that binds the three keys to empty strings is accepted by the constructor
  (a non-empty object is true in a condition), and \<open>parse_config\<close> returns and stores a
  configuration whose \<open>url\<close>, \<open>client_id\<close> and \<open>client_secret\<close> are empty.
\<close>

theorem parse_config_stored_fields_counterexample:
  "JSONParser_init
     [''config.json'' \<mapsto>
        JSON (PyDict [(''url'', PyStr ''''), (''client_id'', PyStr ''''),
                      (''client_secret'', PyStr '''')])] ''config.json'' =
     Inr \<lparr>parsed_config = None,
          json_config = PyDict [(''url'', PyStr ''''), (''client_id'', PyStr ''''),
                                (''client_secret'', PyStr '''')]\<rparr>
   \<and> JSONParser_parse_config
       \<lparr>parsed_config = None,
        json_config = PyDict [(''url'', PyStr ''''), (''client_id'', PyStr ''''),
                              (''client_secret'', PyStr '''')]\<rparr> =
     (Returned,
      \<lparr>parsed_config =
         Some \<lparr>url = PyStr '''', client_id = PyStr '''', client_secret = PyStr '''',
               custom_modules = PyList []\<rparr>,
       json_config = PyDict [(''url'', PyStr ''''), (''client_id'', PyStr ''''),
                             (''client_secret'', PyStr '''')]\<rparr>)
   \<and> \<not> nonempty_str (PyStr '''')"
  by (simp add: JSONParser_init_def load_file_def JSONParser_parse_config_def
        PySuiteCRMConfig_init_def PySuiteCRMConfig_fields_def)

end
